theory Spec2Isabelle
  imports Complex_Main
begin

section \<open>Values shared by the command-line runner and the server\<close>

text \<open>
  A Python \<open>str\<close> is a sequence of code points, so it is a list of naturals here (the
  names produced by \<open>Faker(locale='zh_CN')\<close> do not fit an 8-bit \<open>char\<close>). The literals
  of the source are ASCII and are injected with \<open>ascii\<close>. Python's \<open>float\<close> is idealised
  as \<open>real\<close>, its unbounded \<open>int\<close> is \<open>int\<close>.
\<close>

type_synonym pystr = "nat list"

definition ascii :: "string \<Rightarrow> pystr" where
  "ascii s = map of_char s"

text \<open>
  What \<open>await client.get(...)\<close> can raise. The three transport failures of httpx and any
  other subclass of \<open>Exception\<close> carry their message \<open>str(e)\<close>; \<open>CancelledError\<close> and
  \<open>KeyboardInterrupt\<close> derive from \<open>BaseException\<close> only, so \<open>except Exception\<close> does
  not catch them.
\<close>

datatype exn =
    ConnectError pystr
  | TimeoutException pystr
  | ProtocolError pystr
  | OtherException pystr
  | CancelledError
  | KeyboardInterrupt

fun is_Exception :: "exn \<Rightarrow> bool" where
  "is_Exception CancelledError = False"
| "is_Exception KeyboardInterrupt = False"
| "is_Exception _ = True"

fun str_exn :: "exn \<Rightarrow> pystr" where
  "str_exn (ConnectError m) = m"
| "str_exn (TimeoutException m) = m"
| "str_exn (ProtocolError m) = m"
| "str_exn (OtherException m) = m"
| "str_exn CancelledError = []"
| "str_exn KeyboardInterrupt = []"

text \<open>
  The part of an \<open>httpx.Response\<close> the programs read: \<open>resp.status_code\<close>, \<open>resp.text\<close>
  (\<open>None\<close> when decoding raises) and \<open>repr(resp.content)\<close>.
\<close>

record response =
  status_code :: int
  resp_text :: "pystr option"
  content_repr :: pystr

datatype get_result = Returns response | Raises exn

datatype pval = PStr pystr | PInt int

datatype http_method = GET | POST

record request =
  meth :: http_method
  url :: pystr
  params :: "(string \<times> pval) list"
  timeout :: real

text \<open>
  The log of what one task does, in order: \<open>Sleep d\<close> is \<open>await asyncio.sleep(d)\<close>,
  \<open>Take_token\<close> marks the consumption of a token (\<open>self._tokens -= 1.0\<close>), \<open>Send q\<close> is
  the call of the HTTP client.
\<close>

datatype event = Sleep real | Take_token | Send request

text \<open>
  \<open>random.randint(a, b)\<close> returns an integer \<open>N\<close> with \<open>a \<le> N \<le> b\<close>; the entropy it
  draws is the argument \<open>seed\<close>.
\<close>

definition randint :: "int \<Rightarrow> int \<Rightarrow> nat \<Rightarrow> int" where
  "randint a b seed = a + int seed mod (b - a + 1)"

section \<open>cli_runner.py\<close>

subsection \<open>class Runner\<close>

text \<open>
  The fields of \<open>Runner\<close>; \<open>tokens\<close> is \<open>_tokens\<close>, \<open>last_fill\<close> is \<open>_last_fill\<close> and
  \<open>total_cnt\<close> is \<open>total\<close>. A last response is the pair of its status (absent after an
  exception) and its body.
\<close>

record runner =
  target :: pystr
  concurrency :: int
  duration :: int
  rps :: real
  tokens :: real
  last_fill :: real
  total_cnt :: int
  success :: int
  failure :: int
  total_time :: real
  last_response :: "(int option \<times> pystr) option"

text \<open>\<open>Runner.__init__\<close>; \<open>now\<close> is the value of \<open>time.time()\<close>.\<close>

definition Runner_init :: "pystr \<Rightarrow> int \<Rightarrow> int \<Rightarrow> real \<Rightarrow> runner" where
  "Runner_init tgt c d now =
     \<lparr>target = tgt, concurrency = c, duration = d, rps = 0,
      tokens = 0, last_fill = now,
      total_cnt = 0, success = 0, failure = 0, total_time = 0,
      last_response = None\<rparr>"

subsection \<open>The token bucket inside \<open>Runner._one\<close>\<close>

text \<open>Lines 48 to 54: the refill at the entry, capped at two seconds' worth.\<close>

definition refill_entry :: "real \<Rightarrow> runner \<Rightarrow> runner" where
  "refill_entry now r =
     (let elapsed = now - last_fill r;
          r1 = r\<lparr>tokens := tokens r + elapsed * rps r\<rparr>;
          r2 = (if tokens r1 > rps r1 * 2 then r1\<lparr>tokens := rps r1 * 2\<rparr> else r1)
      in r2\<lparr>last_fill := now\<rparr>)"

text \<open>Lines 66 to 69: the refill after a sleep of the wait loop.\<close>

definition refill_loop :: "real \<Rightarrow> runner \<Rightarrow> runner" where
  "refill_loop now r =
     (let elapsed = now - last_fill r;
          r1 = r\<lparr>tokens := tokens r + elapsed * rps r\<rparr>
      in r1\<lparr>last_fill := now\<rparr>)"

text \<open>Lines 60 to 65: the argument of \<open>asyncio.sleep\<close>.\<close>

definition wait_for :: "runner \<Rightarrow> real" where
  "wait_for r = (let needed = 1 - tokens r; wait = needed / rps r in max (1 / 100) wait)"

text \<open>Line 71.\<close>

definition consume :: "runner \<Rightarrow> runner" where
  "consume r = r\<lparr>tokens := tokens r - 1\<rparr>"

text \<open>
  Lines 58 to 69, \<open>while self._tokens < 1.0\<close>. The list holds the values that
  \<open>time.time()\<close> returns after each sleep; the result is \<open>None\<close> when the loop is still
  waiting after the last of them. A sleep that is cancelled is not part of the model.
\<close>

fun wait_loop :: "real list \<Rightarrow> runner \<Rightarrow> (runner \<times> event list) option" where
  "wait_loop [] r = (if tokens r < 1 then None else Some (r, []))"
| "wait_loop (now # ts) r =
     (if tokens r < 1 then
        (case wait_loop ts (refill_loop now r) of
           None \<Rightarrow> None
         | Some (r', evs) \<Rightarrow> Some (r', Sleep (wait_for r) # evs))
      else Some (r, []))"

subsection \<open>Recording an outcome\<close>

text \<open>Lines 79 to 89, after \<open>client.get\<close> has returned \<open>resp\<close>.\<close>

definition record_response :: "response \<Rightarrow> real \<Rightarrow> runner \<Rightarrow> runner" where
  "record_response resp elapsed r =
     (let r1 = r\<lparr>total_cnt := total_cnt r + 1\<rparr>;
          r2 = r1\<lparr>total_time := total_time r1 + elapsed\<rparr>;
          r3 = (if 200 \<le> status_code resp \<and> status_code resp < 300
                then r2\<lparr>success := success r2 + 1\<rparr>
                else r2\<lparr>failure := failure r2 + 1\<rparr>);
          body = (case resp_text resp of Some t \<Rightarrow> t | None \<Rightarrow> content_repr resp)
      in r3\<lparr>last_response := Some (Some (status_code resp), take 2000 body)\<rparr>)"

text \<open>Lines 91 to 93, the handler \<open>except Exception as e\<close>.\<close>

definition record_exception :: "exn \<Rightarrow> runner \<Rightarrow> runner" where
  "record_exception e r =
     (let r1 = r\<lparr>total_cnt := total_cnt r + 1\<rparr>;
          r2 = r1\<lparr>failure := failure r1 + 1\<rparr>
      in r2\<lparr>last_response := Some (None, ascii ''exception: '' @ str_exn e)\<rparr>)"

subsection \<open>\<open>Runner._one\<close>\<close>

text \<open>
  What the surroundings answer during one call of \<open>_one\<close>: the clock at line 48, the
  clock after each sleep (line 66), the name from \<open>self.fake.name()\<close>, the entropy of
  \<open>random.randint\<close>, the clock at line 75, what \<open>client.get\<close> does and the clock when it ends
  (read at line 78 if it returns).
\<close>

record one_env =
  t_now :: real
  t_wake :: "real list"
  gen_name :: pystr
  gen_seed :: nat
  t_start :: real
  get_reply :: get_result
  t_end :: real

text \<open>Lines 72 to 77: the request that is sent.\<close>

definition build_request :: "one_env \<Rightarrow> runner \<Rightarrow> request" where
  "build_request env r =
     (let name = gen_name env;
          ps = [(''q'', PStr name), (''loadMore'', PInt (randint 1 5 (gen_seed env)))]
      in \<lparr>meth = GET, url = target r, params = ps, timeout = 10\<rparr>)"

text \<open>
  \<open>Runner._one\<close>, lines 44 to 93. The result is the runner afterwards, the log of the
  call, and the exception that leaves the call, if one does; it is \<open>None\<close> while the wait
  loop has not ended. Everything from line 47 to line 93 is inside the
  \<open>if self.rps and self.rps > 0\<close> of line 46.
\<close>

definition one :: "one_env \<Rightarrow> runner \<Rightarrow> (runner \<times> event list \<times> exn option) option" where
  "one env r =
     (if rps r \<noteq> 0 \<and> rps r > 0 then
        (case wait_loop (t_wake env) (refill_entry (t_now env) r) of
           None \<Rightarrow> None
         | Some (r1, sleeps) \<Rightarrow>
             (let r2 = consume r1;
                  req = build_request env r2;
                  start = t_start env;
                  evs = sleeps @ [Take_token, Send req]
              in case get_reply env of
                   Returns resp \<Rightarrow>
                     (let elapsed = t_end env - start
                      in Some (record_response resp elapsed r2, evs, None))
                 | Raises e \<Rightarrow>
                     if is_Exception e then Some (record_exception e r2, evs, None)
                     else Some (r2, evs, Some e)))
      else Some (r, [], None))"

subsection \<open>\<open>Runner.worker\<close>, \<open>Runner.run\<close>, \<open>Runner.report\<close> and \<open>main\<close>\<close>

text \<open>
  \<open>Runner.worker\<close>, lines 95 to 98. Each element of the list is one evaluation of the
  loop test: the value of \<open>time.time()\<close> there and the surroundings of the call of
  \<open>_one\<close> that follows when the test succeeds. The result is \<open>None\<close> while the loop is
  still running after the last element.
\<close>

fun worker :: "real \<Rightarrow> (real \<times> one_env) list \<Rightarrow> runner
    \<Rightarrow> (runner \<times> event list \<times> exn option) option" where
  "worker end_time [] r = None"
| "worker end_time ((t, env) # rest) r =
     (if t < end_time then
        (case one env r of
           None \<Rightarrow> None
         | Some (r1, evs, Some e) \<Rightarrow> Some (r1, evs, Some e)
         | Some (r1, evs, None) \<Rightarrow>
             (case worker end_time rest r1 of
                None \<Rightarrow> None
              | Some (r2, evs2, x) \<Rightarrow> Some (r2, evs @ Sleep 0 # evs2, x)))
      else Some (r, [], None))"

text \<open>Lines 103 and 104 of \<open>Runner.run\<close>.\<close>

definition run_reset :: "real \<Rightarrow> runner \<Rightarrow> runner" where
  "run_reset now r = (let r1 = r\<lparr>tokens := 0\<rparr> in r1\<lparr>last_fill := now\<rparr>)"

text \<open>
  Lines 101 to 106 of \<open>Runner.run\<close>: the deadline, the runner after the reset and the
  number of worker tasks created (\<open>range(self.concurrency)\<close> is empty for a
  concurrency below 1). \<open>t0\<close> and \<open>t1\<close> are the clock at lines 101 and 104.
\<close>

definition run_setup :: "real \<Rightarrow> real \<Rightarrow> runner \<Rightarrow> real \<times> runner \<times> nat" where
  "run_setup t0 t1 r =
     (let end_time = t0 + real_of_int (duration r)
      in (end_time, run_reset t1 r, nat (concurrency r)))"

text \<open>Lines 167 to 169 of \<open>main\<close>: the runner that is run.\<close>

definition main_runner :: "pystr \<Rightarrow> int \<Rightarrow> int \<Rightarrow> real \<Rightarrow> real \<Rightarrow> runner" where
  "main_runner tgt c d rate now = (Runner_init tgt c d now)\<lparr>rps := rate\<rparr>"

text \<open>\<open>Runner.report\<close>, lines 145 to 163: the values it prints.\<close>

record report_out =
  rep_total :: int
  rep_success :: int
  rep_failure :: int
  rep_avg :: "real option"
  rep_run_time :: real
  rep_last :: "(int option \<times> pystr) option"

definition report :: "real \<Rightarrow> real \<Rightarrow> runner \<Rightarrow> report_out" where
  "report start_t end_t r =
     (let elapsed = end_t - start_t;
          avg = (if total_cnt r > 0 then Some (total_time r / real_of_int (total_cnt r)) else None)
      in \<lparr>rep_total = total_cnt r, rep_success = success r, rep_failure = failure r,
          rep_avg = avg, rep_run_time = elapsed,
          rep_last = (case last_response r of
                        None \<Rightarrow> None
                      | Some (code, body) \<Rightarrow>
                          Some (code, take 1000 (map (\<lambda>c. if c = 10 then 32 else c) body)))\<rparr>)"

subsection \<open>The tasks of one run, interleaved\<close>

text \<open>
  asyncio runs one task at a time and switches only at an \<open>await\<close>. What a worker does
  to the shared runner between two awaits of \<open>_one\<close> is therefore one step: from the
  call to the first await (refill at the entry, loop test, then either the sleep or the
  consumption and the request), from the end of a sleep to the next await (refill of
  the loop, loop test, the same), and from the end of \<open>client.get\<close> to the return.
\<close>

text \<open>The loop test of line 58 followed by line 71 when the loop is left.\<close>

definition gate :: "runner \<Rightarrow> runner" where
  "gate r = (if tokens r < 1 then r else consume r)"

text \<open>
  \<open>cli_reach clk r\<close>: the shared runner is \<open>r\<close> at some await of a run, and \<open>clk\<close> is the
  latest value \<open>time.time()\<close> has returned; the clock never runs backwards.
\<close>

inductive cli_reach :: "real \<Rightarrow> runner \<Rightarrow> bool" where
  begun: "t0 \<le> t1 \<Longrightarrow> cli_reach t1 (run_reset t1 (main_runner tgt c d rate t0))"
| tick: "cli_reach clk r \<Longrightarrow> clk \<le> now \<Longrightarrow> cli_reach now r"
| entered: "cli_reach clk r \<Longrightarrow> clk \<le> now \<Longrightarrow> rps r \<noteq> 0 \<and> rps r > 0
    \<Longrightarrow> cli_reach now (gate (refill_entry now r))"
| woke: "cli_reach clk r \<Longrightarrow> clk \<le> now \<Longrightarrow> rps r \<noteq> 0 \<and> rps r > 0
    \<Longrightarrow> cli_reach now (gate (refill_loop now r))"
| responded: "cli_reach clk r \<Longrightarrow> cli_reach clk (record_response resp elapsed r)"
| failed: "cli_reach clk r \<Longrightarrow> is_Exception e \<Longrightarrow> cli_reach clk (record_exception e r)"

section \<open>server.py\<close>

text \<open>
  The module state: the keys of the dictionary \<open>_state\<close> (\<open>success_s\<close>, \<open>failure_s\<close>,
  \<open>total_time_s\<close> and \<open>last_response_s\<close> are \<open>success\<close>, \<open>failure\<close>, \<open>total_time\<close> and
  \<open>last_response\<close>), the list \<open>_tasks\<close> as indices into \<open>pool\<close>, and \<open>pool\<close>, the tasks
  the event loop has created so far.
\<close>

datatype coroutine = Run_load int int pystr | Loop_worker

record task =
  coro :: coroutine
  finished :: bool
  cancel_requested :: bool

record server =
  running :: bool
  total_requests :: int
  success_s :: int
  failure_s :: int
  total_time_s :: real
  start_time :: "real option"
  end_time :: "real option"
  last_response_s :: "(int option \<times> pystr) option"
  tasks :: "nat list"
  pool :: "task list"

text \<open>Lines 17 to 29.\<close>

definition initial_server :: server where
  "initial_server =
     \<lparr>running = False, total_requests = 0, success_s = 0, failure_s = 0,
      total_time_s = 0, start_time = None, end_time = None, last_response_s = None,
      tasks = [], pool = []\<rparr>"

text \<open>An answer of an endpoint: the HTTP status and the JSON object.\<close>

record http_reply =
  code :: nat
  json :: "(string \<times> string) list"

text \<open>\<open>for t in _tasks: if not t.done(): t.cancel()\<close>.\<close>

fun cancel_all :: "nat list \<Rightarrow> task list \<Rightarrow> task list" where
  "cancel_all [] p = p"
| "cancel_all (i # is) p =
     cancel_all is
       (if i < length p \<and> \<not> finished (p ! i) then p[i := (p ! i)\<lparr>cancel_requested := True\<rparr>]
        else p)"

text \<open>\<open>loop.create_task(c)\<close>: the new task and the pool with it.\<close>

definition create_task :: "coroutine \<Rightarrow> task list \<Rightarrow> nat \<times> task list" where
  "create_task c p = (length p, p @ [\<lparr>coro = c, finished = False, cancel_requested = False\<rparr>])"

text \<open>\<open>start_test\<close>, lines 38 to 68; \<open>now\<close> is the clock at line 50.\<close>

definition start_test :: "int \<Rightarrow> int \<Rightarrow> pystr \<Rightarrow> real \<Rightarrow> server \<Rightarrow> http_reply \<times> server" where
  "start_test c d tgt now s =
     (if running s then (\<lparr>code = 400, json = [(''error'', ''test already running'')]\<rparr>, s)
      else
        (let s1 = s\<lparr>running := True, total_requests := 0, success_s := 0, failure_s := 0,
                    total_time_s := 0, start_time := Some now, end_time := None,
                    last_response_s := None\<rparr>;
             s2 = s1\<lparr>pool := cancel_all (tasks s1) (pool s1)\<rparr>;
             s3 = s2\<lparr>tasks := []\<rparr>;
             (controller, p) = create_task (Run_load c d tgt) (pool s3);
             s4 = s3\<lparr>pool := p\<rparr>;
             s5 = s4\<lparr>tasks := tasks s4 @ [controller]\<rparr>
         in (\<lparr>code = 200, json = [(''status'', ''started'')]\<rparr>, s5)))"

text \<open>\<open>stop_test\<close>, lines 154 to 166; \<open>now\<close> is the clock at line 165.\<close>

definition stop_test :: "real \<Rightarrow> server \<Rightarrow> http_reply \<times> server" where
  "stop_test now s =
     (if \<not> running s then (\<lparr>code = 400, json = [(''status'', ''not running'')]\<rparr>, s)
      else
        (let s1 = s\<lparr>running := False\<rparr>;
             s2 = s1\<lparr>pool := cancel_all (tasks s1) (pool s1)\<rparr>;
             s3 = s2\<lparr>tasks := []\<rparr>;
             s4 = s3\<lparr>end_time := Some now\<rparr>
         in (\<lparr>code = 200, json = [(''status'', ''stopped'')]\<rparr>, s4)))"

text \<open>\<open>status\<close>, lines 71 to 89. A start time of \<open>0.0\<close> is as false as \<open>None\<close>.\<close>

record status_out =
  st_running :: bool
  st_total_requests :: int
  st_success :: int
  st_failure :: int
  st_average_response_time :: "real option"
  st_elapsed :: "real option"
  st_last_response :: "(int option \<times> pystr) option"

definition status :: "real \<Rightarrow> server \<Rightarrow> status_out" where
  "status now s =
     (let elapsed = (case start_time s of
                       None \<Rightarrow> None
                     | Some t \<Rightarrow> if t \<noteq> 0 then Some (now - t) else None);
          avg_resp = (if total_requests s > 0
                      then Some (total_time_s s / real_of_int (total_requests s)) else None)
      in \<lparr>st_running = running s, st_total_requests = total_requests s,
          st_success = success_s s, st_failure = failure_s s,
          st_average_response_time = avg_resp, st_elapsed = elapsed,
          st_last_response = last_response_s s\<rparr>)"

subsection \<open>\<open>_worker\<close>, \<open>_run_load\<close> and its \<open>loop_worker\<close>\<close>

text \<open>
  What the surroundings answer during one call of \<open>_worker\<close>: the name from
  \<open>fake.name()\<close>, the clock at line 97, what \<open>client.get\<close> does and the clock when
  it ends (read at line 99 if it returns).
\<close>

record worker_env =
  w_name :: pystr
  w_start :: real
  w_reply :: get_result
  w_end :: real

text \<open>Lines 95 to 98: the request that is sent.\<close>

definition worker_request :: "worker_env \<Rightarrow> pystr \<Rightarrow> request" where
  "worker_request env tgt =
     (let name = w_name env;
          ps = [(''q'', PStr name)]
      in \<lparr>meth = GET, url = tgt, params = ps, timeout = 10\<rparr>)"

text \<open>Lines 100 to 112, after \<open>client.get\<close> has returned \<open>resp\<close>.\<close>

definition record_response_s :: "response \<Rightarrow> real \<Rightarrow> server \<Rightarrow> server" where
  "record_response_s resp elapsed s =
     (let s1 = s\<lparr>total_requests := total_requests s + 1\<rparr>;
          s2 = s1\<lparr>total_time_s := total_time_s s1 + elapsed\<rparr>;
          s3 = (if 200 \<le> status_code resp \<and> status_code resp < 300
                then s2\<lparr>success_s := success_s s2 + 1\<rparr>
                else s2\<lparr>failure_s := failure_s s2 + 1\<rparr>);
          txt = (case resp_text resp of Some t \<Rightarrow> t | None \<Rightarrow> take 1000 (content_repr resp))
      in s3\<lparr>last_response_s := Some (Some (status_code resp), take 2000 txt)\<rparr>)"

text \<open>Lines 114 to 116, the handler \<open>except Exception\<close>.\<close>

definition record_exception_s :: "server \<Rightarrow> server" where
  "record_exception_s s =
     (let s1 = s\<lparr>total_requests := total_requests s + 1\<rparr>;
          s2 = s1\<lparr>failure_s := failure_s s1 + 1\<rparr>
      in s2\<lparr>last_response_s := Some (None, ascii ''exception'')\<rparr>)"

text \<open>
  \<open>_worker\<close>, lines 92 to 116: the state afterwards, the log of the call and the
  exception that leaves the call, if one does.
\<close>

definition worker_srv :: "worker_env \<Rightarrow> pystr \<Rightarrow> server \<Rightarrow> server \<times> event list \<times> exn option" where
  "worker_srv env tgt s =
     (let req = worker_request env tgt;
          start = w_start env;
          evs = [Send req]
      in case w_reply env of
           Returns resp \<Rightarrow>
             (let elapsed = w_end env - start
              in (record_response_s resp elapsed s, evs, None))
         | Raises e \<Rightarrow>
             if is_Exception e then (record_exception_s s, evs, None)
             else (s, evs, Some e))"

text \<open>
  \<open>loop_worker\<close>, lines 125 to 130, with the list of loop tests as for \<open>Runner.worker\<close>;
  \<open>deadline\<close> is the local \<open>end_time\<close> of \<open>_run_load\<close>.
\<close>

fun loop_worker :: "real \<Rightarrow> pystr \<Rightarrow> (real \<times> worker_env) list \<Rightarrow> server
    \<Rightarrow> (server \<times> event list \<times> exn option) option" where
  "loop_worker deadline tgt [] s = None"
| "loop_worker deadline tgt ((t, env) # rest) s =
     (if t < deadline \<and> running s then
        (case worker_srv env tgt s of
           (s1, evs, Some e) \<Rightarrow> Some (s1, evs, Some e)
         | (s1, evs, None) \<Rightarrow>
             (case loop_worker deadline tgt rest s1 of
                None \<Rightarrow> None
              | Some (s2, evs2, x) \<Rightarrow> Some (s2, evs @ Sleep 0 # evs2, x)))
      else Some (s, [], None))"

text \<open>\<open>n\<close> calls of \<open>asyncio.create_task(loop_worker())\<close>.\<close>

fun spawn :: "nat \<Rightarrow> task list \<Rightarrow> nat list \<times> task list" where
  "spawn 0 p = ([], p)"
| "spawn (Suc n) p =
     (let (w, p1) = create_task Loop_worker p;
          (ws, p2) = spawn n p1
      in (w # ws, p2))"

text \<open>
  What leaves \<open>_run_load\<close> before its workers exist: \<open>asyncio.Semaphore(value)\<close> raises
  \<open>ValueError\<close> for a negative value.
\<close>

datatype load_error = ValueError

text \<open>
  Lines 120 to 136 of \<open>_run_load\<close>: the deadline and the state once the workers are
  created and stored; \<open>now\<close> is the clock at line 120. When the semaphore of line 123
  raises, the exception leaves \<open>_run_load\<close>: no worker is created, lines 150 and 151 are
  not run and the state stays as it is, \<open>running\<close> included.
\<close>

definition run_load_begin :: "int \<Rightarrow> int \<Rightarrow> real \<Rightarrow> server \<Rightarrow> load_error + real \<times> server"
  where
  "run_load_begin c d now s =
     (let deadline = now + real_of_int d
      in if c < 0 then Inl ValueError
         else
           (let (workers, p) = spawn (nat c) (pool s);
                s1 = s\<lparr>pool := p\<rparr>;
                s2 = s1\<lparr>tasks := tasks s1 @ workers\<rparr>
            in Inr (deadline, s2)))"

text \<open>Lines 150 and 151 of \<open>_run_load\<close>; \<open>now\<close> is the clock at line 151.\<close>

definition run_load_end :: "real \<Rightarrow> server \<Rightarrow> server" where
  "run_load_end now s = (let s1 = s\<lparr>running := False\<rparr> in s1\<lparr>end_time := Some now\<rparr>)"

subsection \<open>The endpoints and the tasks of the server, interleaved\<close>

text \<open>
  The states of the module at the awaits of its tasks: each rule is what one endpoint
  or one task does between two awaits.
\<close>

inductive srv_reach :: "server \<Rightarrow> bool" where
  loaded: "srv_reach initial_server"
| start_called: "srv_reach s \<Longrightarrow> srv_reach (snd (start_test c d tgt now s))"
| stop_called: "srv_reach s \<Longrightarrow> srv_reach (snd (stop_test now s))"
| load_begun: "srv_reach s \<Longrightarrow> run_load_begin c d now s = Inr (deadline, s')
    \<Longrightarrow> srv_reach s'"
| load_ended: "srv_reach s \<Longrightarrow> srv_reach (run_load_end now s)"
| got_response: "srv_reach s \<Longrightarrow> srv_reach (record_response_s resp elapsed s)"
| got_exception: "srv_reach s \<Longrightarrow> srv_reach (record_exception_s s)"

section \<open>Reading a log\<close>

text \<open>
  \<open>gated tok evs\<close>: in the log \<open>evs\<close> every request is sent with a token taken since the
  request before it; \<open>tok\<close> tells whether a token is in hand at the start.
\<close>

fun gated :: "bool \<Rightarrow> event list \<Rightarrow> bool" where
  "gated tok [] = True"
| "gated tok (Take_token # evs) = gated True evs"
| "gated tok (Send q # evs) = (tok \<and> gated False evs)"
| "gated tok (Sleep d # evs) = gated tok evs"

text \<open>The requests of a log, in order.\<close>

fun sent :: "event list \<Rightarrow> request list" where
  "sent [] = []"
| "sent (Send q # evs) = q # sent evs"
| "sent (_ # evs) = sent evs"

section \<open>Sample inputs\<close>

definition ok_response :: response where
  "ok_response = \<lparr>status_code = 200, resp_text = Some (ascii ''ok''), content_repr = ascii ''b'' \<rparr>"

definition sample_target :: pystr where
  "sample_target = ascii ''http://x/api/search''"

text \<open>A call during which the clock stands at \<open>t\<close> and \<open>client.get\<close> does \<open>g\<close>.\<close>

definition env_at :: "real \<Rightarrow> get_result \<Rightarrow> one_env" where
  "env_at t g =
     \<lparr>t_now = t, t_wake = [], gen_name = ascii ''Li'', gen_seed = 7, t_start = t,
      get_reply = g, t_end = t\<rparr>"

definition worker_env_at :: "real \<Rightarrow> get_result \<Rightarrow> worker_env" where
  "worker_env_at t g = \<lparr>w_name = ascii ''Li'', w_start = t, w_reply = g, w_end = t\<rparr>"




section \<open>Facts about the single operations\<close>

lemma length_cancel_all [simp]: "length (cancel_all is p) = length p"
  by (induction "is" arbitrary: p) auto

lemma record_response_fields:
  "total_cnt (record_response resp el r) = total_cnt r + 1"
  "success (record_response resp el r) =
     success r + (if 200 \<le> status_code resp \<and> status_code resp < 300 then 1 else 0)"
  "failure (record_response resp el r) =
     failure r + (if 200 \<le> status_code resp \<and> status_code resp < 300 then 0 else 1)"
  "total_time (record_response resp el r) = total_time r + el"
  "tokens (record_response resp el r) = tokens r"
  "last_fill (record_response resp el r) = last_fill r"
  "rps (record_response resp el r) = rps r"
  "target (record_response resp el r) = target r"
  by (simp_all add: record_response_def Let_def)

lemma record_exception_fields:
  "total_cnt (record_exception e r) = total_cnt r + 1"
  "success (record_exception e r) = success r"
  "failure (record_exception e r) = failure r + 1"
  "total_time (record_exception e r) = total_time r"
  "tokens (record_exception e r) = tokens r"
  "last_fill (record_exception e r) = last_fill r"
  "rps (record_exception e r) = rps r"
  "target (record_exception e r) = target r"
  by (simp_all add: record_exception_def Let_def)

lemma bucket_ops_counters:
  "total_cnt (refill_entry now r) = total_cnt r"
  "success (refill_entry now r) = success r"
  "failure (refill_entry now r) = failure r"
  "total_cnt (refill_loop now r) = total_cnt r"
  "success (refill_loop now r) = success r"
  "failure (refill_loop now r) = failure r"
  "total_cnt (gate r) = total_cnt r"
  "success (gate r) = success r"
  "failure (gate r) = failure r"
  by (simp_all add: refill_entry_def refill_loop_def gate_def consume_def Let_def)

lemma refill_entry_fields:
  "rps (refill_entry now r) = rps r"
  "last_fill (refill_entry now r) = now"
  "target (refill_entry now r) = target r"
  "tokens (refill_entry now r) = min (tokens r + (now - last_fill r) * rps r) (rps r * 2)"
  by (simp_all add: refill_entry_def Let_def min_def)

lemma refill_loop_fields:
  "rps (refill_loop now r) = rps r"
  "last_fill (refill_loop now r) = now"
  "target (refill_loop now r) = target r"
  "tokens (refill_loop now r) = tokens r + (now - last_fill r) * rps r"
  by (simp_all add: refill_loop_def Let_def)

lemma gate_fields:
  "rps (gate r) = rps r"
  "last_fill (gate r) = last_fill r"
  "tokens (gate r) = (if tokens r < 1 then tokens r else tokens r - 1)"
  by (simp_all add: gate_def consume_def)

lemma gate_nonneg: "0 \<le> tokens r \<Longrightarrow> 0 \<le> tokens (gate r)"
  by (simp add: gate_fields)

lemma refill_entry_nonneg:
  assumes "0 \<le> tokens r" and "last_fill r \<le> now" and "0 < rps r"
  shows "0 \<le> tokens (refill_entry now r)"
proof -
  have "0 \<le> (now - last_fill r) * rps r"
    using assms by simp
  with assms show ?thesis
    by (simp add: refill_entry_fields)
qed

lemma refill_loop_nonneg:
  assumes "0 \<le> tokens r" and "last_fill r \<le> now" and "0 < rps r"
  shows "0 \<le> tokens (refill_loop now r)"
proof -
  have "0 \<le> (now - last_fill r) * rps r"
    using assms by simp
  with assms show ?thesis
    by (simp add: refill_loop_fields)
qed


lemma wait_loop_token: "wait_loop ts r = Some (r', evs) \<Longrightarrow> 1 \<le> tokens r'"
proof (induction ts arbitrary: r evs)
  case Nil
  then show ?case
    by (simp split: if_splits)
next
  case (Cons now ts)
  show ?case
  proof (cases "tokens r < 1")
    case True
    with Cons.prems obtain evs2 where "wait_loop ts (refill_loop now r) = Some (r', evs2)"
      by (auto split: option.splits)
    then show ?thesis
      by (rule Cons.IH)
  next
    case False
    with Cons.prems show ?thesis by simp
  qed
qed

lemma one_bypass: "\<not> (rps r \<noteq> 0 \<and> rps r > 0) \<Longrightarrow> one env r = Some (r, [], None)"
  by (auto simp: one_def)

section \<open>Invariants of the interleaved tasks\<close>

lemma cli_reach_conserved: "cli_reach clk r \<Longrightarrow> total_cnt r = success r + failure r"
proof (induction rule: cli_reach.induct)
  case (begun t0 t1 tgt c d rate)
  then show ?case
    by (simp add: run_reset_def main_runner_def Runner_init_def)
next
  case (responded clk r resp elapsed)
  then show ?case
    by (simp add: record_response_fields)
next
  case (failed clk r e)
  then show ?case
    by (simp add: record_exception_fields)
qed (simp_all add: bucket_ops_counters)

lemma srv_reach_conserved: "srv_reach s \<Longrightarrow> total_requests s = success_s s + failure_s s"
proof (induction rule: srv_reach.induct)
  case loaded
  then show ?case
    by (simp add: initial_server_def)
next
  case (start_called s c d tgt now)
  then show ?case
    by (simp add: start_test_def create_task_def Let_def)
next
  case (stop_called s now)
  then show ?case
    by (simp add: stop_test_def Let_def)
next
  case (load_begun s c d now deadline s')
  then show ?case
    by (auto simp: run_load_begin_def Let_def split: prod.splits if_splits)
next
  case (load_ended s now)
  then show ?case
    by (simp add: run_load_end_def Let_def)
next
  case (got_response s resp elapsed)
  then show ?case
    by (simp add: record_response_s_def Let_def)
next
  case (got_exception s)
  then show ?case
    by (simp add: record_exception_s_def Let_def)
qed

text \<open>The bucket never goes negative and its time stamp never lies ahead of the clock.\<close>

lemma cli_reach_bucket: "cli_reach clk r \<Longrightarrow> 0 \<le> tokens r \<and> last_fill r \<le> clk"
proof (induction rule: cli_reach.induct)
  case (begun t0 t1 tgt c d rate)
  then show ?case
    by (simp add: run_reset_def)
next
  case (tick clk r now)
  then show ?case by simp
next
  case (entered clk r now)
  then have "0 \<le> tokens (refill_entry now r)"
    by (intro refill_entry_nonneg) auto
  then have "0 \<le> tokens (gate (refill_entry now r))"
    by (rule gate_nonneg)
  moreover have "last_fill (gate (refill_entry now r)) = now"
    by (simp add: gate_fields(2) refill_entry_fields(2))
  ultimately show ?case by simp
next
  case (woke clk r now)
  then have "0 \<le> tokens (refill_loop now r)"
    by (intro refill_loop_nonneg) auto
  then have "0 \<le> tokens (gate (refill_loop now r))"
    by (rule gate_nonneg)
  moreover have "last_fill (gate (refill_loop now r)) = now"
    by (simp add: gate_fields(2) refill_loop_fields(2))
  ultimately show ?case by simp
next
  case (responded clk r resp elapsed)
  then show ?case
    by (simp add: record_response_fields)
next
  case (failed clk r e)
  then show ?case
    by (simp add: record_exception_fields)
qed

section \<open>Calls in sequence are runs of the interleaved tasks\<close>

text \<open>
  With a clock that never runs backwards, the runner that a call of \<open>_one\<close> leaves is
  one that the interleaved tasks reach, and so is the state that a call of \<open>_worker\<close>
  leaves: the invariants above hold after every call.
\<close>

lemma wait_loop_reach:
  assumes "cli_reach clk (gate x)" and "rps x \<noteq> 0 \<and> rps x > 0" and "sorted (clk # ts)"
    and "wait_loop ts x = Some (x', evs)"
  shows "\<exists>clk'. clk \<le> clk' \<and> cli_reach clk' (consume x')"
  using assms
proof (induction ts arbitrary: clk x evs)
  case Nil
  then show ?case
    by (auto simp: gate_def split: if_splits)
next
  case (Cons now ts)
  show ?case
  proof (cases "tokens x < 1")
    case False
    with Cons.prems show ?thesis
      by (auto simp: gate_def)
  next
    case True
    with Cons.prems obtain evs2 where
      w: "wait_loop ts (refill_loop now x) = Some (x', evs2)"
      by (auto split: option.splits)
    from True Cons.prems(1) have "cli_reach clk x"
      by (simp add: gate_def)
    moreover from Cons.prems(3) have le: "clk \<le> now" and s: "sorted (now # ts)"
      by simp_all
    ultimately have "cli_reach now (gate (refill_loop now x))"
      using Cons.prems(2) by (intro cli_reach.woke)
    moreover have "rps (refill_loop now x) \<noteq> 0 \<and> rps (refill_loop now x) > 0"
      using Cons.prems(2) by (simp add: refill_loop_fields)
    ultimately obtain clk' where "now \<le> clk'" "cli_reach clk' (consume x')"
      using Cons.IH [OF _ _ s w] by blast
    with le show ?thesis
      by (intro exI [of _ clk']) simp
  qed
qed

lemma one_reach:
  assumes "cli_reach clk r" and "sorted (clk # t_now env # t_wake env)"
    and "one env r = Some (r', evs, x)"
  shows "\<exists>clk'. clk \<le> clk' \<and> cli_reach clk' r'"
proof (cases "rps r \<noteq> 0 \<and> rps r > 0")
  case False
  with assms show ?thesis
    by (auto simp: one_bypass)
next
  case True
  from assms(2) have le: "clk \<le> t_now env" and s: "sorted (t_now env # t_wake env)"
    by simp_all
  from assms(3) True obtain r1 sleeps where
    w: "wait_loop (t_wake env) (refill_entry (t_now env) r) = Some (r1, sleeps)"
    by (auto simp: one_def split: option.splits)
  have "cli_reach (t_now env) (gate (refill_entry (t_now env) r))"
    using assms(1) le True by (intro cli_reach.entered)
  moreover have "rps (refill_entry (t_now env) r) \<noteq> 0 \<and> rps (refill_entry (t_now env) r) > 0"
    using True by (simp add: refill_entry_fields)
  ultimately obtain clk' where c: "t_now env \<le> clk'" "cli_reach clk' (consume r1)"
    using wait_loop_reach [OF _ _ s w] by blast
  have "cli_reach clk' r'"
  proof (cases "get_reply env")
    case (Returns resp)
    with assms(3) True w have "r' = record_response resp (t_end env - t_start env) (consume r1)"
      by (simp add: one_def Let_def)
    with c(2) show ?thesis
      by (simp add: cli_reach.responded)
  next
    case (Raises e)
    show ?thesis
    proof (cases "is_Exception e")
      case True
      with assms(3) \<open>rps r \<noteq> 0 \<and> rps r > 0\<close> w Raises have "r' = record_exception e (consume r1)"
        by (simp add: one_def Let_def)
      with c(2) True show ?thesis
        by (simp add: cli_reach.failed)
    next
      case False
      with assms(3) \<open>rps r \<noteq> 0 \<and> rps r > 0\<close> w Raises have "r' = consume r1"
        by (simp add: one_def Let_def)
      with c(2) show ?thesis by simp
    qed
  qed
  with le c(1) show ?thesis
    by (intro exI [of _ clk']) simp
qed

lemma worker_srv_reach: "srv_reach s \<Longrightarrow> srv_reach (fst (worker_srv env tgt s))"
  by (auto simp: worker_srv_def Let_def srv_reach.got_response srv_reach.got_exception
      split: get_result.splits)

section \<open>Facts about the logs\<close>

text \<open>The wait loop changes the bucket only, and its log holds sleeps only.\<close>

lemma wait_loop_keeps:
  "wait_loop ts r = Some (r', evs) \<Longrightarrow>
     total_cnt r' = total_cnt r \<and> success r' = success r \<and> failure r' = failure r
     \<and> total_time r' = total_time r \<and> target r' = target r \<and> rps r' = rps r
     \<and> last_response r' = last_response r"
proof (induction ts arbitrary: r evs)
  case Nil
  then show ?case by (simp split: if_splits)
next
  case (Cons now ts)
  show ?case
  proof (cases "tokens r < 1")
    case True
    with Cons.prems obtain evs2 where "wait_loop ts (refill_loop now r) = Some (r', evs2)"
      by (auto split: option.splits)
    from Cons.IH [OF this] show ?thesis
      by (simp add: refill_loop_def Let_def)
  next
    case False
    with Cons.prems show ?thesis by simp
  qed
qed

lemma wait_loop_log:
  "wait_loop ts r = Some (r', evs) \<Longrightarrow>
     gated tok (evs @ rest) = gated tok rest \<and> sent (evs @ rest) = sent rest"
proof (induction ts arbitrary: r evs)
  case Nil
  then show ?case by (simp split: if_splits)
next
  case (Cons now ts)
  show ?case
  proof (cases "tokens r < 1")
    case True
    with Cons.prems obtain evs2 where
      w: "wait_loop ts (refill_loop now r) = Some (r', evs2)" and e: "evs = Sleep (wait_for r) # evs2"
      by (auto split: option.splits)
    from Cons.IH [OF w] e show ?thesis by simp
  next
    case False
    with Cons.prems show ?thesis by simp
  qed
qed

text \<open>A call of \<open>_one\<close> either does nothing or passes the gate and sends one request.\<close>

lemma one_cases:
  assumes "one env r = Some (r', evs, x)"
  shows "(r' = r \<and> evs = [] \<and> x = None)
       \<or> (\<exists>r1 sleeps. wait_loop (t_wake env) (refill_entry (t_now env) r) = Some (r1, sleeps)
             \<and> evs = sleeps @ [Take_token, Send (build_request env (consume r1))]
             \<and> target r' = target r)"
proof (cases "rps r \<noteq> 0 \<and> rps r > 0")
  case False
  with assms show ?thesis by (simp add: one_bypass)
next
  case True
  with assms obtain r1 sleeps where
    w: "wait_loop (t_wake env) (refill_entry (t_now env) r) = Some (r1, sleeps)"
    by (auto simp: one_def split: option.splits)
  from wait_loop_keeps [OF w] have t: "target r1 = target r"
    by (simp add: refill_entry_fields)
  from assms True w t show ?thesis
    by (auto simp: one_def Let_def consume_def record_response_fields record_exception_fields
        split: get_result.splits if_splits)
qed

lemma worker_gated: "worker deadline its r = Some (r', evs, x) \<Longrightarrow> gated tok evs"
proof (induction its arbitrary: r evs tok)
  case Nil
  then show ?case by simp
next
  case (Cons a its)
  obtain t env where a: "a = (t, env)" by (cases a)
  show ?case
  proof (cases "t < deadline")
    case False
    with Cons.prems a show ?thesis by simp
  next
    case True
    with Cons.prems a obtain r1 evs1 y where o: "one env r = Some (r1, evs1, y)"
      by (auto split: option.splits)
    have g1: "gated b (evs1 @ rest) = gated (if evs1 = [] then b else False) rest" for b rest
      using one_cases [OF o] wait_loop_log by (auto simp: wait_loop_log)
    show ?thesis
    proof (cases y)
      case (Some e)
      with Cons.prems a True o have "evs = evs1" by simp
      with g1 [of tok "[]"] show ?thesis by simp
    next
      case None
      with Cons.prems a True o obtain evs2 where
        w: "worker deadline its r1 = Some (r', evs2, x)" and e: "evs = evs1 @ Sleep 0 # evs2"
        by (auto split: option.splits)
      from Cons.IH [OF w] have "gated b evs2" for b .
      with e g1 show ?thesis by simp
    qed
  qed
qed

lemma worker_requests:
  "worker deadline its r = Some (r', evs, x) \<Longrightarrow>
     \<forall>q\<in>set (sent evs). meth q = GET \<and> url q = target r \<and> timeout q = 10
       \<and> (\<exists>name n. params q = [(''q'', PStr name), (''loadMore'', PInt n)] \<and> 1 \<le> n \<and> n \<le> 5)"
proof (induction its arbitrary: r evs)
  case Nil
  then show ?case by simp
next
  case (Cons a its)
  obtain t env where a: "a = (t, env)" by (cases a)
  show ?case
  proof (cases "t < deadline")
    case False
    with Cons.prems a show ?thesis by simp
  next
    case True
    with Cons.prems a obtain r1 evs1 y where o: "one env r = Some (r1, evs1, y)"
      by (auto split: option.splits)
    have tg: "target r1 = target r"
      using one_cases [OF o] by auto
    have s1: "sent (evs1 @ rest) = sent evs1 @ sent rest" for rest
      using one_cases [OF o] by (auto simp: wait_loop_log)
    have q1: "\<forall>q\<in>set (sent evs1). meth q = GET \<and> url q = target r \<and> timeout q = 10
       \<and> (\<exists>name n. params q = [(''q'', PStr name), (''loadMore'', PInt n)] \<and> 1 \<le> n \<and> n \<le> 5)"
    proof -
      from one_cases [OF o] consider "evs1 = []"
        | r0 sleeps where "wait_loop (t_wake env) (refill_entry (t_now env) r) = Some (r0, sleeps)"
            "evs1 = sleeps @ [Take_token, Send (build_request env (consume r0))]"
        by auto
      then show ?thesis
      proof cases
        case 1
        then show ?thesis by simp
      next
        case 2
        from wait_loop_keeps [OF 2(1)] have "target r0 = target r"
          by (simp add: refill_entry_fields)
        moreover have "1 \<le> randint 1 5 (gen_seed env) \<and> randint 1 5 (gen_seed env) \<le> 5"
          by (simp add: randint_def)
        ultimately show ?thesis
          using 2 wait_loop_log [OF 2(1)]
          by (simp add: build_request_def consume_def Let_def)
      qed
    qed
    show ?thesis
    proof (cases y)
      case (Some e)
      with Cons.prems a True o have "evs = evs1" by simp
      with q1 show ?thesis by simp
    next
      case None
      with Cons.prems a True o obtain evs2 where
        w: "worker deadline its r1 = Some (r', evs2, x)" and e: "evs = evs1 @ Sleep 0 # evs2"
        by (auto split: option.splits)
      from Cons.IH [OF w] tg q1 e s1 show ?thesis by auto
    qed
  qed
qed

lemma worker_srv_log: "fst (snd (worker_srv env tgt s)) = [Send (worker_request env tgt)]"
  by (simp add: worker_srv_def Let_def split: get_result.splits)

lemma loop_worker_requests:
  "loop_worker deadline tgt its s = Some (s', evs, x) \<Longrightarrow>
     \<forall>q\<in>set (sent evs). meth q = GET \<and> url q = tgt \<and> timeout q = 10
       \<and> (\<exists>name. params q = [(''q'', PStr name)])"
proof (induction its arbitrary: s evs)
  case Nil
  then show ?case by simp
next
  case (Cons a its)
  obtain t env where a: "a = (t, env)" by (cases a)
  show ?case
  proof (cases "t < deadline \<and> running s")
    case False
    with Cons.prems a show ?thesis by auto
  next
    case True
    obtain s1 evs1 y where o: "worker_srv env tgt s = (s1, evs1, y)"
      by (cases "worker_srv env tgt s") auto
    with worker_srv_log [of env tgt s] have e1: "evs1 = [Send (worker_request env tgt)]"
      by simp
    show ?thesis
    proof (cases y)
      case (Some e)
      with Cons.prems a True o e1 show ?thesis
        by (auto simp: worker_request_def)
    next
      case None
      with Cons.prems a True o obtain evs2 where
        w: "loop_worker deadline tgt its s1 = Some (s', evs2, x)" and e: "evs = evs1 @ Sleep 0 # evs2"
        by (auto split: option.splits)
      from Cons.IH [OF w] e e1 show ?thesis
        by (auto simp: worker_request_def)
    qed
  qed
qed

text \<open>Two sample runs: one iteration before the deadline, then the loop ends.\<close>

lemma sample_worker_run:
  "worker 10 [(1, env_at 1 (Returns ok_response)), (11, env_at 11 (Returns ok_response))]
       (run_reset 0 (main_runner sample_target 1 10 5 0))
     = Some (record_response ok_response 0
               (consume (refill_entry 1 (run_reset 0 (main_runner sample_target 1 10 5 0)))),
             [Take_token,
              Send \<lparr>meth = GET, url = sample_target,
                    params = [(''q'', PStr (ascii ''Li'')), (''loadMore'', PInt 3)],
                    timeout = 10\<rparr>,
              Sleep 0],
             None)"
  by (simp add: one_def env_at_def run_reset_def main_runner_def Runner_init_def
      refill_entry_def consume_def build_request_def randint_def Let_def)

lemma sample_loop_worker_run:
  "loop_worker 10 sample_target
       [(1, worker_env_at 1 (Returns ok_response)), (11, worker_env_at 11 (Returns ok_response))]
       (snd (start_test 1 10 sample_target 0 initial_server))
     = Some (record_response_s ok_response 0 (snd (start_test 1 10 sample_target 0 initial_server)),
             [Send \<lparr>meth = GET, url = sample_target, params = [(''q'', PStr (ascii ''Li''))],
                    timeout = 10\<rparr>,
              Sleep 0],
             None)"
  by (simp add: worker_srv_def worker_request_def worker_env_at_def Let_def start_test_def
      create_task_def initial_server_def)

section \<open>The claims\<close>

subsection \<open>C1: a rate of zero\<close>

text \<open>
  Claim C1 says that with \<open>rps = 0\<close> the gate is bypassed and every iteration of the
  worker loop sends a request, so that at least one request is sent and counted. In
  \<open>cli_runner.py\<close> the request is built and sent inside the \<open>if\<close> of line 46, so with
  \<open>rps = 0\<close> a call of \<open>_one\<close> returns at once and does nothing: whatever the worker
  loop is given, it leaves the runner as it was, sends no request and counts none.
\<close>

theorem rps_zero_sends_nothing:
  assumes "rps r = 0"
  shows "one env r = Some (r, [], None)
    \<and> (worker deadline its r = Some (r', evs, x) \<longrightarrow> r' = r \<and> sent evs = [] \<and> x = None)"
proof
  show "one env r = Some (r, [], None)"
    using assms by (simp add: one_bypass)
  have "r' = r \<and> sent evs = [] \<and> x = None"
    if "worker deadline its r = Some (r', evs, x)"
    using that
  proof (induction its arbitrary: evs)
    case Nil
    then show ?case by simp
  next
    case (Cons a its)
    obtain t env1 where a: "a = (t, env1)" by (cases a)
    show ?case
    proof (cases "t < deadline")
      case True
      with Cons.prems a assms obtain evs2 where
        w: "worker deadline its r = Some (r', evs2, x)" and e: "evs = [] @ Sleep 0 # evs2"
        by (auto simp: one_bypass split: option.splits)
      from Cons.IH [OF w] e show ?thesis by simp
    next
      case False
      with Cons.prems a show ?thesis by simp
    qed
  qed
  then show "worker deadline its r = Some (r', evs, x) \<longrightarrow> r' = r \<and> sent evs = [] \<and> x = None"
    by blast
qed

text \<open>
  A run with the default rate: the first loop test is before the deadline, yet the
  log of the worker holds the yield only and the total stays 0.
\<close>

theorem rps_zero_sends_nothing_witness:
  "rps (main_runner sample_target 1 1 0 0) = 0
   \<and> one (env_at 0 (Returns ok_response)) (main_runner sample_target 1 1 0 0)
     = Some (main_runner sample_target 1 1 0 0, [], None)
   \<and> worker 1 [(0, env_at 0 (Returns ok_response)), (5, env_at 5 (Returns ok_response))]
        (main_runner sample_target 1 1 0 0)
     = Some (main_runner sample_target 1 1 0 0, [Sleep 0], None)
   \<and> sent [Sleep 0] = []
   \<and> total_cnt (main_runner sample_target 1 1 0 0) = 0"
proof -
  have h: "rps (main_runner sample_target 1 1 0 0) = 0"
    by (simp add: main_runner_def)
  have w: "worker 1 [(0, env_at 0 (Returns ok_response)), (5, env_at 5 (Returns ok_response))]
        (main_runner sample_target 1 1 0 0)
     = Some (main_runner sample_target 1 1 0 0, [Sleep 0], None)"
    by (simp add: one_bypass h)
  from rps_zero_sends_nothing [OF h, of "env_at 0 (Returns ok_response)"] h w show ?thesis
    by (simp add: main_runner_def Runner_init_def)
qed

subsection \<open>C2: conservation of the counters\<close>

text \<open>
  Claim C2: at every await of a run, hence after every completed record and in every
  report of the command-line runner and every status of the server, the total equals
  the sum of the successes and the failures.
\<close>

theorem counter_conservation:
  "(cli_reach clk r \<longrightarrow>
      total_cnt r = success r + failure r
      \<and> rep_total (report t0 t1 r) = rep_success (report t0 t1 r) + rep_failure (report t0 t1 r))
   \<and> (srv_reach s \<longrightarrow>
      total_requests s = success_s s + failure_s s
      \<and> st_total_requests (status now s) = st_success (status now s) + st_failure (status now s))"
  by (simp add: cli_reach_conserved srv_reach_conserved report_def status_def Let_def)

text \<open>An instance: one response and one failure recorded in each program.\<close>

theorem counter_conservation_witness:
  "cli_reach 1 (record_exception (ConnectError [])
      (record_response ok_response (1 / 2)
        (gate (refill_entry 1 (run_reset 0 (main_runner sample_target 1 1 5 0))))))
   \<and> total_cnt (record_exception (ConnectError [])
      (record_response ok_response (1 / 2)
        (gate (refill_entry 1 (run_reset 0 (main_runner sample_target 1 1 5 0)))))) = 2
   \<and> srv_reach (record_exception_s (record_response_s ok_response (1 / 2)
        (snd (start_test 1 1 sample_target 0 initial_server))))
   \<and> st_total_requests (status 1 (record_exception_s (record_response_s ok_response (1 / 2)
        (snd (start_test 1 1 sample_target 0 initial_server))))) = 2
   \<and> st_success (status 1 (record_exception_s (record_response_s ok_response (1 / 2)
        (snd (start_test 1 1 sample_target 0 initial_server)))))
     + st_failure (status 1 (record_exception_s (record_response_s ok_response (1 / 2)
        (snd (start_test 1 1 sample_target 0 initial_server))))) = 2"
proof -
  let ?r = "record_exception (ConnectError [])
      (record_response ok_response (1 / 2)
        (gate (refill_entry 1 (run_reset 0 (main_runner sample_target 1 1 5 0)))))"
  let ?s = "record_exception_s (record_response_s ok_response (1 / 2)
        (snd (start_test 1 1 sample_target 0 initial_server)))"
  have "cli_reach 0 (run_reset 0 (main_runner sample_target 1 1 5 0))"
    by (rule cli_reach.begun) simp
  then have "cli_reach 1 (gate (refill_entry 1 (run_reset 0 (main_runner sample_target 1 1 5 0))))"
    by (rule cli_reach.entered) (simp_all add: run_reset_def main_runner_def)
  then have c: "cli_reach 1 ?r"
    by (intro cli_reach.failed cli_reach.responded) simp_all
  have v: "srv_reach ?s"
    by (intro srv_reach.got_exception srv_reach.got_response srv_reach.start_called
        srv_reach.loaded)
  have n: "total_cnt ?r = 2"
    by (simp add: record_exception_fields record_response_fields bucket_ops_counters
        run_reset_def main_runner_def Runner_init_def)
  have m: "st_total_requests (status 1 ?s) = 2"
    by (simp add: status_def record_exception_s_def record_response_s_def start_test_def
        create_task_def initial_server_def Let_def)
  from counter_conservation [of 1 ?r 0 1 ?s 1] c v n m show ?thesis
    by simp
qed

subsection \<open>C3: invalid configurations\<close>




subsection \<open>C4: what recording an outcome changes\<close>

text \<open>
  Claim C4, as amended: recording a response, whatever its status, adds 1 to the
  total, adds 1 to the successes if the status is in \<open>[200, 300)\<close> and to the failures
  otherwise, adds the latency of the request to the cumulative time and replaces the
  last response. Recording a failed transport adds 1 to the total and to the failures
  and replaces the last response by one without a status; the cumulative time stays
  as it is, since no latency is measured on that path. Both programs do so.
\<close>

theorem recording_an_outcome:
  "total_cnt (record_response resp el r) = total_cnt r + 1
   \<and> (if 200 \<le> status_code resp \<and> status_code resp < 300
      then success (record_response resp el r) = success r + 1
           \<and> failure (record_response resp el r) = failure r
      else success (record_response resp el r) = success r
           \<and> failure (record_response resp el r) = failure r + 1)
   \<and> total_time (record_response resp el r) = total_time r + el
   \<and> last_response (record_response resp el r)
       = Some (Some (status_code resp),
               take 2000 (case resp_text resp of Some t \<Rightarrow> t | None \<Rightarrow> content_repr resp))
   \<and> total_cnt (record_exception e r) = total_cnt r + 1
   \<and> success (record_exception e r) = success r
   \<and> failure (record_exception e r) = failure r + 1
   \<and> total_time (record_exception e r) = total_time r
   \<and> last_response (record_exception e r) = Some (None, ascii ''exception: '' @ str_exn e)
   \<and> total_requests (record_response_s resp el s) = total_requests s + 1
   \<and> (if 200 \<le> status_code resp \<and> status_code resp < 300
      then success_s (record_response_s resp el s) = success_s s + 1
           \<and> failure_s (record_response_s resp el s) = failure_s s
      else success_s (record_response_s resp el s) = success_s s
           \<and> failure_s (record_response_s resp el s) = failure_s s + 1)
   \<and> total_time_s (record_response_s resp el s) = total_time_s s + el
   \<and> last_response_s (record_response_s resp el s)
       = Some (Some (status_code resp),
               take 2000 (case resp_text resp of Some t \<Rightarrow> t
                          | None \<Rightarrow> take 1000 (content_repr resp)))
   \<and> total_requests (record_exception_s s) = total_requests s + 1
   \<and> success_s (record_exception_s s) = success_s s
   \<and> failure_s (record_exception_s s) = failure_s s + 1
   \<and> total_time_s (record_exception_s s) = total_time_s s
   \<and> last_response_s (record_exception_s s) = Some (None, ascii ''exception'')"
  by (simp add: record_response_def record_exception_def record_response_s_def
      record_exception_s_def Let_def)

theorem recording_an_outcome_witness:
  "total_cnt (record_response ok_response (1 / 2) (main_runner sample_target 1 1 5 0)) = 1
   \<and> success (record_response ok_response (1 / 2) (main_runner sample_target 1 1 5 0)) = 1
   \<and> total_time (record_response ok_response (1 / 2) (main_runner sample_target 1 1 5 0)) = 1 / 2
   \<and> failure (record_response (ok_response\<lparr>status_code := 404\<rparr>) (1 / 2)
        (main_runner sample_target 1 1 5 0)) = 1
   \<and> failure (record_exception (TimeoutException []) (main_runner sample_target 1 1 5 0)) = 1
   \<and> total_time (record_exception (TimeoutException []) (main_runner sample_target 1 1 5 0)) = 0
   \<and> total_time_s (record_response_s ok_response (1 / 2) initial_server) = 1 / 2
   \<and> total_time_s (record_exception_s initial_server) = 0"
  using recording_an_outcome [of ok_response "1 / 2" "main_runner sample_target 1 1 5 0"
      "TimeoutException []" initial_server]
    recording_an_outcome [of "ok_response\<lparr>status_code := 404\<rparr>" "1 / 2"
      "main_runner sample_target 1 1 5 0" "TimeoutException []" initial_server]
  by (simp add: ok_response_def main_runner_def Runner_init_def initial_server_def)

text \<open>
  Claim C4 as it was stated fails for a failed transport: a request sent at clock 1
  that times out at clock 11 is counted, and the cumulative time is still 0, in the
  command-line runner and in the server.
\<close>

theorem failure_latency_not_added:
  "one ((env_at 1 (Raises (TimeoutException [])))\<lparr>t_end := 11\<rparr>)
       (run_reset 0 (main_runner sample_target 1 60 5 0))
     = Some (record_exception (TimeoutException [])
               (consume (refill_entry 1 (run_reset 0 (main_runner sample_target 1 60 5 0)))),
             [Take_token,
              Send \<lparr>meth = GET, url = sample_target,
                    params = [(''q'', PStr (ascii ''Li'')), (''loadMore'', PInt 3)],
                    timeout = 10\<rparr>],
             None)
   \<and> t_end ((env_at 1 (Raises (TimeoutException [])))\<lparr>t_end := 11\<rparr>)
       - t_start ((env_at 1 (Raises (TimeoutException [])))\<lparr>t_end := 11\<rparr>) = 10
   \<and> total_cnt (record_exception (TimeoutException [])
        (consume (refill_entry 1 (run_reset 0 (main_runner sample_target 1 60 5 0))))) = 1
   \<and> total_time (record_exception (TimeoutException [])
        (consume (refill_entry 1 (run_reset 0 (main_runner sample_target 1 60 5 0))))) = 0
   \<and> worker_srv ((worker_env_at 1 (Raises (TimeoutException [])))\<lparr>w_end := 11\<rparr>)
        sample_target (snd (start_test 1 60 sample_target 0 initial_server))
     = (record_exception_s (snd (start_test 1 60 sample_target 0 initial_server)),
        [Send \<lparr>meth = GET, url = sample_target, params = [(''q'', PStr (ascii ''Li''))],
               timeout = 10\<rparr>],
        None)
   \<and> total_requests (record_exception_s (snd (start_test 1 60 sample_target 0 initial_server))) = 1
   \<and> total_time_s (record_exception_s (snd (start_test 1 60 sample_target 0 initial_server))) = 0"
  by (simp add: one_def env_at_def worker_env_at_def run_reset_def main_runner_def Runner_init_def
      refill_entry_def consume_def build_request_def randint_def record_exception_def
      worker_srv_def worker_request_def record_exception_s_def start_test_def create_task_def
      initial_server_def Let_def)

subsection \<open>C5: the gate before the request\<close>

text \<open>
  Claim C5, as amended: in the command-line runner no request is sent without the
  gate. A call of \<open>_one\<close> that sends a request has a positive rate, has left the wait
  loop with at least one token in the bucket and has taken exactly one token out of
  it before the request; every iteration of the worker loop is such a call, and in
  the log of a worker every request follows the consumption of a token taken since
  the request before it. The server has no rate limiter: a call of its \<open>_worker\<close>
  sends the request and does nothing else before it.
\<close>

theorem gate_before_request:
  "(one env r = Some (r1, evs1, y) \<and> sent evs1 \<noteq> [] \<longrightarrow>
      rps r > 0
      \<and> (\<exists>b sleeps.
            wait_loop (t_wake env) (refill_entry (t_now env) r) = Some (b, sleeps)
            \<and> 1 \<le> tokens b
            \<and> tokens r1 = tokens b - 1
            \<and> evs1 = sleeps @ [Take_token, Send (build_request env (consume b))]
            \<and> sent evs1 = [build_request env (consume b)]))
   \<and> (worker deadline its r = Some (r', evs, x) \<longrightarrow> gated False evs)
   \<and> fst (snd (worker_srv wenv tgt s)) = [Send (worker_request wenv tgt)]"
proof -
  have held: "rps r > 0
      \<and> (\<exists>b sleeps.
            wait_loop (t_wake env) (refill_entry (t_now env) r) = Some (b, sleeps)
            \<and> 1 \<le> tokens b
            \<and> tokens r1 = tokens b - 1
            \<and> evs1 = sleeps @ [Take_token, Send (build_request env (consume b))]
            \<and> sent evs1 = [build_request env (consume b)])"
    if o: "one env r = Some (r1, evs1, y)" and n: "sent evs1 \<noteq> []"
  proof -
    have pos: "rps r \<noteq> 0 \<and> rps r > 0"
    proof (rule ccontr)
      assume "\<not> (rps r \<noteq> 0 \<and> rps r > 0)"
      then have "one env r = Some (r, [], None)"
        by (rule one_bypass)
      with o n show False by simp
    qed
    with o obtain b sleeps where
      w: "wait_loop (t_wake env) (refill_entry (t_now env) r) = Some (b, sleeps)"
      by (auto simp: one_def split: option.splits)
    have t: "1 \<le> tokens b"
      using w by (rule wait_loop_token)
    have e: "evs1 = sleeps @ [Take_token, Send (build_request env (consume b))]"
      using o pos w
      by (auto simp: one_def Let_def split: get_result.splits if_splits)
    have k: "tokens r1 = tokens b - 1"
      using o pos w
      by (auto simp: one_def Let_def consume_def record_response_fields record_exception_fields
          split: get_result.splits if_splits)
    have q: "sent evs1 = [build_request env (consume b)]"
      using wait_loop_log [OF w] e by simp
    from pos w t e k q show ?thesis
      by blast
  qed
  then show ?thesis
    by (simp add: worker_gated worker_srv_log)
qed

text \<open>
  An instance: five tokens have accrued, the call takes one and sends; and a call on
  the empty bucket with no sleep granted does not return, so it sends nothing.
\<close>

theorem gate_before_request_witness:
  "one (env_at 1 (Returns ok_response)) (run_reset 0 (main_runner sample_target 1 10 5 0))
     = Some (record_response ok_response 0
               (consume (refill_entry 1 (run_reset 0 (main_runner sample_target 1 10 5 0)))),
             [Take_token,
              Send \<lparr>meth = GET, url = sample_target,
                    params = [(''q'', PStr (ascii ''Li'')), (''loadMore'', PInt 3)],
                    timeout = 10\<rparr>],
             None)
   \<and> sent [Take_token,
            Send \<lparr>meth = GET, url = sample_target,
                  params = [(''q'', PStr (ascii ''Li'')), (''loadMore'', PInt 3)],
                  timeout = 10\<rparr>] \<noteq> []
   \<and> 0 < rps (run_reset 0 (main_runner sample_target 1 10 5 0))
   \<and> wait_loop [] (refill_entry 1 (run_reset 0 (main_runner sample_target 1 10 5 0)))
       = Some (refill_entry 1 (run_reset 0 (main_runner sample_target 1 10 5 0)), [])
   \<and> tokens (refill_entry 1 (run_reset 0 (main_runner sample_target 1 10 5 0))) = 5
   \<and> tokens (record_response ok_response 0
        (consume (refill_entry 1 (run_reset 0 (main_runner sample_target 1 10 5 0))))) = 4
   \<and> one (env_at 0 (Returns ok_response)) (run_reset 0 (main_runner sample_target 1 10 5 0))
       = None
   \<and> worker 10 [(1, env_at 1 (Returns ok_response)), (11, env_at 11 (Returns ok_response))]
       (run_reset 0 (main_runner sample_target 1 10 5 0))
     = Some (record_response ok_response 0
               (consume (refill_entry 1 (run_reset 0 (main_runner sample_target 1 10 5 0)))),
             [Take_token,
              Send \<lparr>meth = GET, url = sample_target,
                    params = [(''q'', PStr (ascii ''Li'')), (''loadMore'', PInt 3)],
                    timeout = 10\<rparr>,
              Sleep 0],
             None)
   \<and> gated False
        [Take_token,
         Send \<lparr>meth = GET, url = sample_target,
               params = [(''q'', PStr (ascii ''Li'')), (''loadMore'', PInt 3)],
               timeout = 10\<rparr>,
         Sleep 0]"
proof -
  let ?r = "run_reset 0 (main_runner sample_target 1 10 5 0)"
  let ?q = "\<lparr>meth = GET, url = sample_target,
             params = [(''q'', PStr (ascii ''Li'')), (''loadMore'', PInt 3)], timeout = 10\<rparr>"
  have o: "one (env_at 1 (Returns ok_response)) ?r
     = Some (record_response ok_response 0 (consume (refill_entry 1 ?r)),
             [Take_token, Send ?q], None)"
    by (simp add: one_def env_at_def run_reset_def main_runner_def Runner_init_def
        refill_entry_def consume_def build_request_def randint_def Let_def)
  have n: "sent [Take_token, Send ?q] \<noteq> []"
    by simp
  have w: "wait_loop [] (refill_entry 1 ?r) = Some (refill_entry 1 ?r, [])"
    by (simp add: refill_entry_fields run_reset_def main_runner_def Runner_init_def)
  have t: "tokens (refill_entry 1 ?r) = 5"
    by (simp add: refill_entry_fields run_reset_def main_runner_def Runner_init_def)
  have k: "tokens (record_response ok_response 0 (consume (refill_entry 1 ?r))) = 4"
    by (simp add: record_response_fields consume_def t)
  have e: "one (env_at 0 (Returns ok_response)) ?r = None"
    by (simp add: one_def env_at_def refill_entry_fields run_reset_def main_runner_def
        Runner_init_def)
  have p: "0 < rps ?r"
    by (simp add: run_reset_def main_runner_def)
  have g: "gated False [Take_token, Send ?q, Sleep 0]"
    using gate_before_request [where env = "env_at 1 (Returns ok_response)" and r = ?r
        and ?r1.0 = "record_response ok_response 0 (consume (refill_entry 1 ?r))"
        and ?evs1.0 = "[Take_token, Send ?q]" and y = None and deadline = 10
        and its = "[(1, env_at 1 (Returns ok_response)), (11, env_at 11 (Returns ok_response))]"]
      sample_worker_run
    by blast
  from o n w t k e p g sample_worker_run show ?thesis
    by simp
qed

text \<open>
  Claim C5 as it was stated fails for the server: the log of a call of \<open>_worker\<close> is
  the request alone, with no token taken.
\<close>

theorem server_request_not_gated:
  "fst (snd (worker_srv (worker_env_at 1 (Returns ok_response)) sample_target
       (snd (start_test 1 60 sample_target 0 initial_server))))
     = [Send \<lparr>meth = GET, url = sample_target, params = [(''q'', PStr (ascii ''Li''))],
              timeout = 10\<rparr>]
   \<and> \<not> gated False (fst (snd (worker_srv (worker_env_at 1 (Returns ok_response)) sample_target
       (snd (start_test 1 60 sample_target 0 initial_server)))))"
  by (simp add: worker_srv_def worker_request_def worker_env_at_def Let_def)

subsection \<open>C6: the bounds of the token bucket\<close>

text \<open>
  Claim C6, as amended: in a run with a positive rate and a clock that never runs
  backwards, the tokens are never negative, at the awaits, after either refill and
  after the consumption; and the refill at the entry of \<open>_one\<close> leaves at most
  \<open>rps * 2\<close> tokens. Nothing is said of an upper bound after the refill of the wait
  loop.
\<close>

theorem token_bucket:
  assumes "cli_reach clk r" and "0 < rps r" and "clk \<le> now"
  shows "0 \<le> tokens r
       \<and> 0 \<le> tokens (refill_entry now r) \<and> tokens (refill_entry now r) \<le> rps r * 2
       \<and> 0 \<le> tokens (gate (refill_entry now r))
       \<and> 0 \<le> tokens (refill_loop now r)
       \<and> 0 \<le> tokens (gate (refill_loop now r))"
proof -
  from cli_reach_bucket [OF assms(1)] assms(3)
  have b: "0 \<le> tokens r" "last_fill r \<le> now" by auto
  have e: "0 \<le> tokens (refill_entry now r)"
    using b assms(2) by (rule refill_entry_nonneg)
  have l: "0 \<le> tokens (refill_loop now r)"
    using b assms(2) by (rule refill_loop_nonneg)
  have c: "tokens (refill_entry now r) \<le> rps r * 2"
    by (simp add: refill_entry_fields)
  from b e l c show ?thesis
    by (simp add: gate_nonneg)
qed

theorem token_bucket_witness:
  "cli_reach 0 (run_reset 0 (main_runner sample_target 1 10 (1 / 4) 0))
   \<and> 0 < rps (run_reset 0 (main_runner sample_target 1 10 (1 / 4) 0))
   \<and> (0::real) \<le> 4
   \<and> tokens (refill_entry 4 (run_reset 0 (main_runner sample_target 1 10 (1 / 4) 0))) = 1 / 2
   \<and> tokens (refill_entry 4 (run_reset 0 (main_runner sample_target 1 10 (1 / 4) 0)))
       \<le> rps (run_reset 0 (main_runner sample_target 1 10 (1 / 4) 0)) * 2
   \<and> 0 \<le> tokens (gate (refill_loop 4 (run_reset 0 (main_runner sample_target 1 10 (1 / 4) 0))))"
proof -
  let ?r = "run_reset 0 (main_runner sample_target 1 10 (1 / 4) 0)"
  have a: "cli_reach 0 ?r"
    by (rule cli_reach.begun) simp
  have b: "0 < rps ?r"
    by (simp add: run_reset_def main_runner_def)
  have c: "(0::real) \<le> 4" by simp
  have d: "tokens (refill_entry 4 ?r) = 1 / 2"
    by (simp add: refill_entry_fields run_reset_def main_runner_def Runner_init_def)
  from token_bucket [OF a b c] a b d show ?thesis
    by simp
qed

text \<open>
  Claim C6 as it was stated fails in the wait loop, whose refill has no cap: at a rate
  of a quarter of a request per second the bucket is empty at the start, the loop
  sleeps four seconds and then holds one token, twice the capacity \<open>rps * 2\<close>.
\<close>

theorem wait_loop_exceeds_capacity:
  "wait_loop [4] (refill_entry 0 (run_reset 0 (main_runner sample_target 1 10 (1 / 4) 0)))
     = Some (refill_loop 4 (refill_entry 0 (run_reset 0 (main_runner sample_target 1 10 (1 / 4) 0))),
             [Sleep 4])
   \<and> rps (run_reset 0 (main_runner sample_target 1 10 (1 / 4) 0)) * 2
       < tokens (refill_loop 4 (refill_entry 0 (run_reset 0 (main_runner sample_target 1 10 (1 / 4) 0))))"
  by (simp add: run_reset_def main_runner_def Runner_init_def refill_entry_def refill_loop_def
      wait_for_def Let_def)

subsection \<open>C7: a failed transport is an outcome\<close>

text \<open>
  Claim C7: when \<open>client.get\<close> raises a connection error, a timeout, a protocol error
  or any other \<open>Exception\<close>, the call returns without an exception; the outcome it
  has recorded has no status, counts as a failure and has a body that is not empty;
  and the worker loop goes on with its next iteration from that state. This holds in
  the command-line runner, once the gate is passed, and in the server.
\<close>

theorem transport_failure_is_recorded:
  assumes "is_Exception e"
  shows
  "(rps r \<noteq> 0 \<and> rps r > 0
      \<and> wait_loop (t_wake env) (refill_entry (t_now env) r) = Some (r1, sleeps)
      \<and> get_reply env = Raises e \<longrightarrow>
      one env r = Some (record_exception e (consume r1),
                        sleeps @ [Take_token, Send (build_request env (consume r1))], None)
      \<and> last_response (record_exception e (consume r1))
          = Some (None, ascii ''exception: '' @ str_exn e)
      \<and> ascii ''exception: '' @ str_exn e \<noteq> []
      \<and> total_cnt (record_exception e (consume r1)) = total_cnt r + 1
      \<and> failure (record_exception e (consume r1)) = failure r + 1
      \<and> success (record_exception e (consume r1)) = success r
      \<and> (t < deadline \<longrightarrow>
           worker deadline ((t, env) # rest) r
             = (case worker deadline rest (record_exception e (consume r1)) of
                  None \<Rightarrow> None
                | Some (r2, evs2, x) \<Rightarrow>
                    Some (r2, (sleeps @ [Take_token, Send (build_request env (consume r1))])
                              @ Sleep 0 # evs2, x))))
   \<and> (w_reply wenv = Raises e \<longrightarrow>
      worker_srv wenv tgt s = (record_exception_s s, [Send (worker_request wenv tgt)], None)
      \<and> last_response_s (record_exception_s s) = Some (None, ascii ''exception'')
      \<and> ascii ''exception'' \<noteq> []
      \<and> total_requests (record_exception_s s) = total_requests s + 1
      \<and> failure_s (record_exception_s s) = failure_s s + 1
      \<and> success_s (record_exception_s s) = success_s s
      \<and> running (record_exception_s s) = running s
      \<and> (t' < deadline' \<and> running s \<longrightarrow>
           loop_worker deadline' tgt ((t', wenv) # rest') s
             = (case loop_worker deadline' tgt rest' (record_exception_s s) of
                  None \<Rightarrow> None
                | Some (s2, evs2, x) \<Rightarrow>
                    Some (s2, [Send (worker_request wenv tgt)] @ Sleep 0 # evs2, x))))"
    (is "?cli \<and> ?srv")
proof -
  have ne1: "ascii ''exception: '' @ str_exn e \<noteq> []"
    by (simp add: ascii_def)
  have ne2: "ascii ''exception'' \<noteq> []"
    by (simp add: ascii_def)
  have lr: "last_response (record_exception e q) = Some (None, ascii ''exception: '' @ str_exn e)"
    for q
    by (simp add: record_exception_def Let_def)
  have cli: ?cli
  proof (intro impI)
    assume h: "rps r \<noteq> 0 \<and> rps r > 0
      \<and> wait_loop (t_wake env) (refill_entry (t_now env) r) = Some (r1, sleeps)
      \<and> get_reply env = Raises e"
    then have o: "one env r = Some (record_exception e (consume r1),
        sleeps @ [Take_token, Send (build_request env (consume r1))], None)"
      using assms by (simp add: one_def Let_def)
    from h have "wait_loop (t_wake env) (refill_entry (t_now env) r) = Some (r1, sleeps)"
      by simp
    from wait_loop_keeps [OF this]
    have k: "total_cnt (consume r1) = total_cnt r" "failure (consume r1) = failure r"
      "success (consume r1) = success r"
      by (simp_all add: bucket_ops_counters consume_def)
    have w: "t < deadline \<longrightarrow> worker deadline ((t, env) # rest) r
             = (case worker deadline rest (record_exception e (consume r1)) of
                  None \<Rightarrow> None
                | Some (r2, evs2, x) \<Rightarrow>
                    Some (r2, (sleeps @ [Take_token, Send (build_request env (consume r1))])
                              @ Sleep 0 # evs2, x))"
      using o by simp
    show "one env r = Some (record_exception e (consume r1),
                        sleeps @ [Take_token, Send (build_request env (consume r1))], None)
      \<and> last_response (record_exception e (consume r1))
          = Some (None, ascii ''exception: '' @ str_exn e)
      \<and> ascii ''exception: '' @ str_exn e \<noteq> []
      \<and> total_cnt (record_exception e (consume r1)) = total_cnt r + 1
      \<and> failure (record_exception e (consume r1)) = failure r + 1
      \<and> success (record_exception e (consume r1)) = success r
      \<and> (t < deadline \<longrightarrow>
           worker deadline ((t, env) # rest) r
             = (case worker deadline rest (record_exception e (consume r1)) of
                  None \<Rightarrow> None
                | Some (r2, evs2, x) \<Rightarrow>
                    Some (r2, (sleeps @ [Take_token, Send (build_request env (consume r1))])
                              @ Sleep 0 # evs2, x)))"
      using o lr ne1 k w by (simp only: record_exception_fields simp_thms)
  qed
  have srv: ?srv
  proof (intro impI)
    assume h: "w_reply wenv = Raises e"
    then have o: "worker_srv wenv tgt s
        = (record_exception_s s, [Send (worker_request wenv tgt)], None)"
      using assms by (simp add: worker_srv_def Let_def)
    have f: "last_response_s (record_exception_s s) = Some (None, ascii ''exception'')"
      "total_requests (record_exception_s s) = total_requests s + 1"
      "failure_s (record_exception_s s) = failure_s s + 1"
      "success_s (record_exception_s s) = success_s s"
      "running (record_exception_s s) = running s"
      by (simp_all add: record_exception_s_def Let_def)
    have w: "t' < deadline' \<and> running s \<longrightarrow> loop_worker deadline' tgt ((t', wenv) # rest') s
             = (case loop_worker deadline' tgt rest' (record_exception_s s) of
                  None \<Rightarrow> None
                | Some (s2, evs2, x) \<Rightarrow>
                    Some (s2, [Send (worker_request wenv tgt)] @ Sleep 0 # evs2, x))"
      using o by simp
    show "worker_srv wenv tgt s = (record_exception_s s, [Send (worker_request wenv tgt)], None)
      \<and> last_response_s (record_exception_s s) = Some (None, ascii ''exception'')
      \<and> ascii ''exception'' \<noteq> []
      \<and> total_requests (record_exception_s s) = total_requests s + 1
      \<and> failure_s (record_exception_s s) = failure_s s + 1
      \<and> success_s (record_exception_s s) = success_s s
      \<and> running (record_exception_s s) = running s
      \<and> (t' < deadline' \<and> running s \<longrightarrow>
           loop_worker deadline' tgt ((t', wenv) # rest') s
             = (case loop_worker deadline' tgt rest' (record_exception_s s) of
                  None \<Rightarrow> None
                | Some (s2, evs2, x) \<Rightarrow>
                    Some (s2, [Send (worker_request wenv tgt)] @ Sleep 0 # evs2, x)))"
      using o f ne2 w by (simp only: simp_thms)
  qed
  from cli srv show ?thesis ..
qed

theorem transport_failure_is_recorded_witness:
  "is_Exception (ConnectError (ascii ''refused''))
   \<and> 0 < rps (run_reset 0 (main_runner sample_target 1 10 5 0))
   \<and> wait_loop [] (refill_entry 1 (run_reset 0 (main_runner sample_target 1 10 5 0)))
       = Some (refill_entry 1 (run_reset 0 (main_runner sample_target 1 10 5 0)), [])
   \<and> one (env_at 1 (Raises (ConnectError (ascii ''refused''))))
          (run_reset 0 (main_runner sample_target 1 10 5 0))
       = Some (record_exception (ConnectError (ascii ''refused''))
                 (consume (refill_entry 1 (run_reset 0 (main_runner sample_target 1 10 5 0)))),
               [Take_token,
                Send (build_request (env_at 1 (Raises (ConnectError (ascii ''refused''))))
                  (consume (refill_entry 1 (run_reset 0 (main_runner sample_target 1 10 5 0)))))],
               None)
   \<and> last_response (record_exception (ConnectError (ascii ''refused''))
          (consume (refill_entry 1 (run_reset 0 (main_runner sample_target 1 10 5 0)))))
       = Some (None, ascii ''exception: refused'')
   \<and> failure (record_exception (ConnectError (ascii ''refused''))
          (consume (refill_entry 1 (run_reset 0 (main_runner sample_target 1 10 5 0))))) = 1
   \<and> worker 10 [(1, env_at 1 (Raises (ConnectError (ascii ''refused'')))),
                 (11, env_at 11 (Returns ok_response))]
          (run_reset 0 (main_runner sample_target 1 10 5 0))
       = Some (record_exception (ConnectError (ascii ''refused''))
                 (consume (refill_entry 1 (run_reset 0 (main_runner sample_target 1 10 5 0)))),
               [Take_token,
                Send (build_request (env_at 1 (Raises (ConnectError (ascii ''refused''))))
                  (consume (refill_entry 1 (run_reset 0 (main_runner sample_target 1 10 5 0))))),
                Sleep 0],
               None)
   \<and> running (snd (start_test 1 10 sample_target 0 initial_server))
   \<and> worker_srv (worker_env_at 1 (Raises (ConnectError (ascii ''refused'')))) sample_target
          (snd (start_test 1 10 sample_target 0 initial_server))
       = (record_exception_s (snd (start_test 1 10 sample_target 0 initial_server)),
          [Send (worker_request (worker_env_at 1 (Raises (ConnectError (ascii ''refused''))))
             sample_target)],
          None)
   \<and> last_response_s (record_exception_s (snd (start_test 1 10 sample_target 0 initial_server)))
       = Some (None, ascii ''exception'')
   \<and> failure_s (record_exception_s (snd (start_test 1 10 sample_target 0 initial_server))) = 1
   \<and> loop_worker 10 sample_target
          [(1, worker_env_at 1 (Raises (ConnectError (ascii ''refused'')))),
           (11, worker_env_at 11 (Returns ok_response))]
          (snd (start_test 1 10 sample_target 0 initial_server))
       = Some (record_exception_s (snd (start_test 1 10 sample_target 0 initial_server)),
               [Send (worker_request (worker_env_at 1 (Raises (ConnectError (ascii ''refused''))))
                  sample_target),
                Sleep 0],
               None)"
proof -
  let ?e = "ConnectError (ascii ''refused'')"
  let ?r = "run_reset 0 (main_runner sample_target 1 10 5 0)"
  let ?s = "snd (start_test 1 10 sample_target 0 initial_server)"
  have a: "is_Exception ?e" by simp
  have b: "rps ?r \<noteq> 0 \<and> 0 < rps ?r"
    by (simp add: run_reset_def main_runner_def)
  have c: "wait_loop (t_wake (env_at 1 (Raises ?e))) (refill_entry (t_now (env_at 1 (Raises ?e))) ?r)
      = Some (refill_entry 1 ?r, [])"
    by (simp add: env_at_def refill_entry_fields run_reset_def main_runner_def Runner_init_def)
  have d: "get_reply (env_at 1 (Raises ?e)) = Raises ?e"
    by (simp add: env_at_def)
  have f: "w_reply (worker_env_at 1 (Raises ?e)) = Raises ?e"
    by (simp add: worker_env_at_def)
  have g: "running ?s"
    by (simp add: start_test_def create_task_def initial_server_def)
  have h: "failure ?r = 0 \<and> failure_s ?s = 0"
    by (simp add: run_reset_def main_runner_def Runner_init_def start_test_def create_task_def
        initial_server_def)
  have i: "ascii ''exception: '' @ str_exn ?e = ascii ''exception: refused''"
    by (simp add: ascii_def)
  have j: "wait_loop [] (refill_entry 1 ?r) = Some (refill_entry 1 ?r, [])"
    using c by (simp add: env_at_def)
  from transport_failure_is_recorded [OF a, where r = ?r and env = "env_at 1 (Raises ?e)"
      and ?r1.0 = "refill_entry 1 ?r" and sleeps = "[]" and t = 1 and deadline = 10
      and rest = "[(11, env_at 11 (Returns ok_response))]"
      and wenv = "worker_env_at 1 (Raises ?e)" and tgt = sample_target and s = ?s
      and t' = 1 and deadline' = 10 and rest' = "[(11, worker_env_at 11 (Returns ok_response))]"]
    a b c d f g h i j
  show ?thesis
    by simp
qed

subsection \<open>C8: rejected lifecycle operations\<close>

text \<open>
  Claim C8: \<open>start_test\<close> on a running server answers 400 with
  \<open>test already running\<close>, \<open>stop_test\<close> on a server that is not running answers 400
  with \<open>not running\<close>, and either leaves the whole state, the task list included, as
  it was.
\<close>

theorem lifecycle_rejections:
  "(running s \<longrightarrow>
      start_test c d tgt now s = (\<lparr>code = 400, json = [(''error'', ''test already running'')]\<rparr>, s))
   \<and> (\<not> running s \<longrightarrow>
      stop_test now s = (\<lparr>code = 400, json = [(''status'', ''not running'')]\<rparr>, s))"
  by (simp add: start_test_def stop_test_def)

theorem lifecycle_rejections_witness:
  "running (snd (start_test 5 2 sample_target 0 initial_server))
   \<and> start_test 3 4 sample_target 1 (snd (start_test 5 2 sample_target 0 initial_server))
     = (\<lparr>code = 400, json = [(''error'', ''test already running'')]\<rparr>,
        snd (start_test 5 2 sample_target 0 initial_server))
   \<and> \<not> running initial_server
   \<and> stop_test 1 initial_server
     = (\<lparr>code = 400, json = [(''status'', ''not running'')]\<rparr>, initial_server)"
proof -
  have a: "running (snd (start_test 5 2 sample_target 0 initial_server))"
    by (simp add: start_test_def create_task_def initial_server_def)
  have b: "\<not> running initial_server"
    by (simp add: initial_server_def)
  from lifecycle_rejections [of "snd (start_test 5 2 sample_target 0 initial_server)" 3 4 sample_target 1]
    lifecycle_rejections [of initial_server 3 4 sample_target 1] a b
  show ?thesis by simp
qed

subsection \<open>C9: the request that is sent\<close>

text \<open>
  Claim C9, as amended: every request is a GET to the target with a timeout of 10
  seconds. In the command-line runner its parameters are \<open>q\<close>, a generated name, and
  \<open>loadMore\<close>, an integer from 1 to 5. In the server the only parameter is \<open>q\<close>, a
  generated name.
\<close>

theorem request_shape:
  "(worker deadline its r = Some (r', evs, x) \<longrightarrow>
      (\<forall>q\<in>set (sent evs). meth q = GET \<and> url q = target r \<and> timeout q = 10
         \<and> (\<exists>name n. params q = [(''q'', PStr name), (''loadMore'', PInt n)]
              \<and> 1 \<le> n \<and> n \<le> 5)))
   \<and> (loop_worker deadline' tgt wits s = Some (s', evs', x') \<longrightarrow>
      (\<forall>q\<in>set (sent evs'). meth q = GET \<and> url q = tgt \<and> timeout q = 10
         \<and> (\<exists>name. params q = [(''q'', PStr name)])))"
  using worker_requests loop_worker_requests by blast

theorem request_shape_witness:
  "worker 10 [(1, env_at 1 (Returns ok_response)), (11, env_at 11 (Returns ok_response))]
       (run_reset 0 (main_runner sample_target 1 10 5 0))
     = Some (record_response ok_response 0
               (consume (refill_entry 1 (run_reset 0 (main_runner sample_target 1 10 5 0)))),
             [Take_token,
              Send \<lparr>meth = GET, url = sample_target,
                    params = [(''q'', PStr (ascii ''Li'')), (''loadMore'', PInt 3)],
                    timeout = 10\<rparr>,
              Sleep 0],
             None)
   \<and> loop_worker 10 sample_target
       [(1, worker_env_at 1 (Returns ok_response)), (11, worker_env_at 11 (Returns ok_response))]
       (snd (start_test 1 10 sample_target 0 initial_server))
     = Some (record_response_s ok_response 0 (snd (start_test 1 10 sample_target 0 initial_server)),
             [Send \<lparr>meth = GET, url = sample_target, params = [(''q'', PStr (ascii ''Li''))],
                    timeout = 10\<rparr>,
              Sleep 0],
             None)
   \<and> target (run_reset 0 (main_runner sample_target 1 10 5 0)) = sample_target
   \<and> (1::int) \<le> 3 \<and> (3::int) \<le> 5"
  using request_shape [of 10 _ "run_reset 0 (main_runner sample_target 1 10 5 0)" _ _ _
      10 sample_target _ "snd (start_test 1 10 sample_target 0 initial_server)"]
    sample_worker_run sample_loop_worker_run
  by (simp add: run_reset_def main_runner_def Runner_init_def)

text \<open>
  Claim C9 as it was stated fails for the server, whose request has no second
  parameter.
\<close>

theorem server_request_has_no_second_parameter:
  "fst (snd (worker_srv (worker_env_at 1 (Returns ok_response)) sample_target
       (snd (start_test 1 60 sample_target 0 initial_server))))
     = [Send \<lparr>meth = GET, url = sample_target, params = [(''q'', PStr (ascii ''Li''))],
              timeout = 10\<rparr>]
   \<and> map_of (params (worker_request (worker_env_at 1 (Returns ok_response)) sample_target))
        ''loadMore'' = None"
  by (simp add: worker_srv_def worker_request_def worker_env_at_def Let_def)

subsection \<open>C10: the bucket at the start of a run\<close>

text \<open>
  Claim C10: \<open>Runner.run\<close> sets the tokens to 0 and the time stamp of the bucket to
  the clock, so the first refill yields the tokens accrued since then at the rate,
  capped as usual, and no burst; when these are less than one token, a call of
  \<open>_one\<close> cannot send before it has slept, and its first sleep is the time the
  missing part of the token takes to accrue, at least 10 ms.
\<close>

theorem run_starts_with_empty_bucket:
  "tokens (fst (snd (run_setup t0 t1 r))) = 0
   \<and> last_fill (fst (snd (run_setup t0 t1 r))) = t1
   \<and> tokens (refill_entry now (fst (snd (run_setup t0 t1 r))))
       = min ((now - t1) * rps r) (rps r * 2)
   \<and> (rps r \<noteq> 0 \<and> rps r > 0 \<and> t_now env = now \<and> (now - t1) * rps r < 1 \<longrightarrow>
        one (env\<lparr>t_wake := []\<rparr>) (fst (snd (run_setup t0 t1 r))) = None
        \<and> (\<forall>r' evs x. one env (fst (snd (run_setup t0 t1 r))) = Some (r', evs, x) \<longrightarrow>
             (\<exists>evs'. evs = Sleep (max (1 / 100) ((1 - min ((now - t1) * rps r) (rps r * 2)) / rps r))
                            # evs')))"
proof -
  let ?R = "fst (snd (run_setup t0 t1 r))"
  have R: "?R = run_reset t1 r"
    by (simp add: run_setup_def)
  have f: "tokens ?R = 0" "last_fill ?R = t1" "rps ?R = rps r"
    by (simp_all add: R run_reset_def)
  have t: "tokens (refill_entry now ?R) = min ((now - t1) * rps r) (rps r * 2)"
    by (simp add: refill_entry_fields f)
  have w: "wait_for (refill_entry now ?R)
      = max (1 / 100) ((1 - min ((now - t1) * rps r) (rps r * 2)) / rps r)"
    by (simp add: wait_for_def Let_def t refill_entry_fields f)
  have g: "one (env\<lparr>t_wake := []\<rparr>) ?R = None
        \<and> (\<forall>r' evs x. one env ?R = Some (r', evs, x) \<longrightarrow>
             (\<exists>evs'. evs = Sleep (max (1 / 100) ((1 - min ((now - t1) * rps r) (rps r * 2)) / rps r))
                            # evs'))"
    if h: "rps r \<noteq> 0 \<and> rps r > 0 \<and> t_now env = now \<and> (now - t1) * rps r < 1"
  proof -
    from h t have lt: "tokens (refill_entry now ?R) < 1"
      by (simp add: min_less_iff_disj)
    from h lt have n: "one (env\<lparr>t_wake := []\<rparr>) ?R = None"
      by (simp add: one_def f)
    have s: "\<exists>evs'. evs = Sleep (wait_for (refill_entry now ?R)) # evs'"
      if o: "one env ?R = Some (r', evs, x)" for r' evs x
    proof (cases "t_wake env")
      case Nil
      with o h lt show ?thesis
        by (simp add: one_def f)
    next
      case (Cons a ts)
      with o h lt show ?thesis
        by (auto simp: one_def f Let_def split: option.splits get_result.splits if_splits)
    qed
    from n s show ?thesis
      unfolding w by blast
  qed
  from f(1,2) t g show ?thesis
    by blast
qed

theorem run_starts_with_empty_bucket_witness:
  "tokens ((main_runner sample_target 1 10 5 0)\<lparr>tokens := 7\<rparr>) = 7
   \<and> tokens (fst (snd (run_setup 0 0 ((main_runner sample_target 1 10 5 0)\<lparr>tokens := 7\<rparr>)))) = 0
   \<and> 0 < rps ((main_runner sample_target 1 10 5 0)\<lparr>tokens := 7\<rparr>)
   \<and> (1 / 10 - 0) * rps ((main_runner sample_target 1 10 5 0)\<lparr>tokens := 7\<rparr>) < 1
   \<and> one ((env_at (1 / 10) (Returns ok_response))\<lparr>t_wake := []\<rparr>)
          (fst (snd (run_setup 0 0 ((main_runner sample_target 1 10 5 0)\<lparr>tokens := 7\<rparr>)))) = None
   \<and> one ((env_at (1 / 10) (Returns ok_response))\<lparr>t_wake := [1 / 5]\<rparr>)
          (fst (snd (run_setup 0 0 ((main_runner sample_target 1 10 5 0)\<lparr>tokens := 7\<rparr>))))
       = Some (record_response ok_response 0
                 (consume (refill_loop (1 / 5) (refill_entry (1 / 10)
                    (run_reset 0 ((main_runner sample_target 1 10 5 0)\<lparr>tokens := 7\<rparr>))))),
               [Sleep (1 / 10), Take_token,
                Send \<lparr>meth = GET, url = sample_target,
                      params = [(''q'', PStr (ascii ''Li'')), (''loadMore'', PInt 3)],
                      timeout = 10\<rparr>],
               None)"
proof -
  let ?r = "(main_runner sample_target 1 10 5 0)\<lparr>tokens := 7\<rparr>"
  let ?env = "(env_at (1 / 10) (Returns ok_response))\<lparr>t_wake := [1 / 5]\<rparr>"
  have a: "rps ?r \<noteq> 0 \<and> 0 < rps ?r \<and> t_now ?env = 1 / 10 \<and> (1 / 10 - 0) * rps ?r < 1"
    by (simp add: main_runner_def env_at_def)
  have b: "?env\<lparr>t_wake := []\<rparr> = (env_at (1 / 10) (Returns ok_response))\<lparr>t_wake := []\<rparr>"
    by simp
  have c: "one ?env (fst (snd (run_setup 0 0 ?r)))
       = Some (record_response ok_response 0
                 (consume (refill_loop (1 / 5) (refill_entry (1 / 10) (run_reset 0 ?r)))),
               [Sleep (1 / 10), Take_token,
                Send \<lparr>meth = GET, url = sample_target,
                      params = [(''q'', PStr (ascii ''Li'')), (''loadMore'', PInt 3)],
                      timeout = 10\<rparr>],
               None)"
    by (simp add: one_def env_at_def run_setup_def run_reset_def main_runner_def Runner_init_def
        refill_entry_def refill_loop_def wait_for_def consume_def build_request_def randint_def
        Let_def)
  from run_starts_with_empty_bucket [where r = ?r and ?t0.0 = 0 and ?t1.0 = 0 and now = "1 / 10"
      and env = ?env] a b c
  show ?thesis
    by simp
qed

end
